theory Spec2Isabelle
  imports Complex_Main "HOL-Library.Multiset"
begin

section \<open>Tokens and arrows\<close>

text \<open>
  The interpreter is one function, \<open>sendhelp(code, live)\<close>, in \<open>src/index.ts\<close>; the
  types and helpers below are the ones it declares locally, in the order of the source.
\<close>

datatype TokenType = INSTANCE | STRING | ARROW | BRACKET

type_synonym Token = "TokenType \<times> string"

text \<open>
  \<open>enum ArrowType { LEFT_SEND, RIGHT_SEND, LEFT_JUMP, RIGHT_JUMP }\<close>: the source computes
  with the numeric value (\<open>arrow[0] % 2\<close>, \<open>arrow[0] / 2\<close>), so the model keeps the number.
\<close>

definition LEFT_SEND :: nat where "LEFT_SEND = 0"
definition RIGHT_SEND :: nat where "RIGHT_SEND = 1"
definition LEFT_JUMP :: nat where "LEFT_JUMP = 2"
definition RIGHT_JUMP :: nat where "RIGHT_JUMP = 3"

text \<open>
  \<open>type Arrow = [ArrowType, number, number]\<close>: the type, the amount of heads (jump length)
  and the amount of dashes (importance).
\<close>

datatype Arrow = Arrow (arrowType: nat) (heads: nat) (dashes: nat)

definition parseArrow :: "Token \<Rightarrow> Arrow" where
  "parseArrow token =
     Arrow
       ((if length (filter (\<lambda>c. c \<noteq> CHR ''-'') (snd token)) = 1 then 0 else 1) * 2
          + (if CHR ''<'' \<in> set (snd token) then 0 else 1))
       (length (filter (\<lambda>c. c \<noteq> CHR ''-'') (snd token)))
       (length (filter (\<lambda>c. c = CHR ''-'') (snd token)))"

section \<open>Blocks\<close>

text \<open>
  \<open>class Block\<close> with its subclasses \<open>BlockBranch\<close>, \<open>Call\<close> and \<open>StringBlock\<close>. Every
  block has the fields \<open>left\<close> and \<open>right\<close> (\<open>Arrow | null\<close>). The field \<open>parent\<close> is a
  back-reference; the model does not store it: a block is addressed by the list of the
  indices that lead to it from the top-level group (innermost index first), so that the
  parent is the tail of the address and \<open>parent.blocks.indexOf(block)\<close> is its head.
\<close>

datatype Block =
    BlockBranch (left: "Arrow option") (right: "Arrow option")
                (blocks: "Block list") (inner: "Arrow option")
  | Call (left: "Arrow option") (right: "Arrow option")
         (name: string) (arguments: "string list")
  | StringBlock (left: "Arrow option") (right: "Arrow option") (string: string)

fun set_left :: "Arrow option \<Rightarrow> Block \<Rightarrow> Block" where
  "set_left a (BlockBranch l r bs i) = BlockBranch a r bs i"
| "set_left a (Call l r n as) = Call a r n as"
| "set_left a (StringBlock l r s) = StringBlock a r s"

fun set_right :: "Arrow option \<Rightarrow> Block \<Rightarrow> Block" where
  "set_right a (BlockBranch l r bs i) = BlockBranch l a bs i"
| "set_right a (Call l r n as) = Call l a n as"
| "set_right a (StringBlock l r s) = StringBlock l a s"

text \<open>\<open>arrow && arrow[0] % 2 != i && ~~(arrow[0] / 2) != 1\<close>, the test of \<open>beginBlockIndex\<close>.\<close>

definition not_entry :: "Arrow option \<Rightarrow> nat \<Rightarrow> bool" where
  "not_entry arrow i =
     (case arrow of None \<Rightarrow> False
      | Some a \<Rightarrow> arrowType a mod 2 \<noteq> i \<and> arrowType a div 2 \<noteq> 1)"

definition beginBlockIndex :: "Block list \<Rightarrow> nat list" where
  "beginBlockIndex bs =
     filter (\<lambda>i. \<not> (not_entry (left (bs ! i)) 0 \<or> not_entry (right (bs ! i)) 1))
       [0..<length bs]"

section \<open>The tokenizer\<close>

text \<open>
  \<open>panic(text)\<close> throws (or reports and exits): the run ends with the message. A
  \<open>TypeError\<close> is what reading a property of \<open>undefined\<close> throws.
\<close>

datatype error = Panic string | TypeError

fun panic :: "string \<Rightarrow> error + 'a" where
  "panic text = Inl (Panic text)"

definition then_do :: "error + 'a \<Rightarrow> ('a \<Rightarrow> error + 'b) \<Rightarrow> error + 'b" where
  "then_do r f = (case r of Inl e \<Rightarrow> Inl e | Inr x \<Rightarrow> f x)"

text \<open>
  \<open>isWhitespace(char)\<close> is \<open>char.trim().length == 0\<close>. The characters of the model are the
  code points below 256; of these, \<open>trim\<close> removes the tab, the line feed, the vertical
  tab, the form feed, the carriage return, the space and the no-break space.
\<close>

definition isWhitespace :: "char \<Rightarrow> bool" where
  "isWhitespace char = (char \<in> set [CHR 0x09, CHR 0x0A, CHR 0x0B, CHR 0x0C, CHR 0x0D, CHR 0x20, CHR 0xA0])"

text \<open>The character classes \<open>/[<>-]/\<close> and \<open>/[0-9]/\<close>.\<close>

definition is_glyph :: "char \<Rightarrow> bool" where
  "is_glyph char = (char = CHR ''<'' \<or> char = CHR ''>'' \<or> char = CHR ''-'')"

definition is_digit :: "char \<Rightarrow> bool" where
  "is_digit char = (char \<in> set ''0123456789'')"

text \<open>
  The two patterns of the tokenizer: \<open>/^(<+-*|-*>+)$/\<close>, which a finished arrow must
  match, and \<open>/^(<+-*|-+>*|>+)$/\<close>, which an arrow must match while it grows.
\<close>

definition is_arrow :: "string \<Rightarrow> bool" where
  "is_arrow s =
     ((takeWhile (\<lambda>c. c = CHR ''<'') s \<noteq> [] \<and>
         list_all (\<lambda>c. c = CHR ''-'') (dropWhile (\<lambda>c. c = CHR ''<'') s))
      \<or> (dropWhile (\<lambda>c. c = CHR ''-'') s \<noteq> [] \<and>
          list_all (\<lambda>c. c = CHR ''>'') (dropWhile (\<lambda>c. c = CHR ''-'') s)))"

definition may_be_arrow :: "string \<Rightarrow> bool" where
  "may_be_arrow s =
     ((takeWhile (\<lambda>c. c = CHR ''<'') s \<noteq> [] \<and>
         list_all (\<lambda>c. c = CHR ''-'') (dropWhile (\<lambda>c. c = CHR ''<'') s))
      \<or> (takeWhile (\<lambda>c. c = CHR ''-'') s \<noteq> [] \<and>
          list_all (\<lambda>c. c = CHR ''>'') (dropWhile (\<lambda>c. c = CHR ''-'') s))
      \<or> (s \<noteq> [] \<and> list_all (\<lambda>c. c = CHR ''>'') s))"

text \<open>
  The local function \<open>append()\<close> of \<open>tokenize\<close>, as far as it changes the list of tokens:
  an arrow that does not match becomes an identifier, and an empty token that is not a
  string is dropped. It also resets the current token to \<open>[0, ""]\<close>, which the callers
  below write out.
\<close>

definition push_token :: "Token list \<Rightarrow> Token \<Rightarrow> Token list" where
  "push_token tokens token =
     (let ty = (if fst token = ARROW \<and> \<not> is_arrow (snd token) then INSTANCE else fst token)
      in if ty = STRING \<or> length (snd token) > 0 then tokens @ [(ty, snd token)] else tokens)"

text \<open>
  One character, in the loop labelled \<open>repeat\<close>: the state is the list of tokens, the
  current token and the flag \<open>backspace\<close>; \<open>continue repeat\<close> is the recursive call on the
  same character. No token is left in the state \<open>BRACKET\<close>, whose case throws.
\<close>

function scan :: "Token list \<Rightarrow> Token \<Rightarrow> bool \<Rightarrow> char \<Rightarrow> error + (Token list \<times> Token \<times> bool)" where
  "scan tokens token backspace char =
     (case fst token of
        INSTANCE \<Rightarrow>
          if char = CHR 0x22 then Inr (push_token tokens token, (STRING, []), backspace)
          else if is_glyph char then scan (push_token tokens token) (ARROW, []) backspace char
          else if char = CHR ''{'' \<or> char = CHR ''}'' then
            Inr (push_token (push_token tokens token) (BRACKET, [char]), (INSTANCE, []), backspace)
          else if isWhitespace char then Inr (push_token tokens token, (INSTANCE, []), backspace)
          else Inr (tokens, (fst token, snd token @ [char]), backspace)
      | STRING \<Rightarrow>
          if backspace then Inr (tokens, (fst token, snd token @ [char]), False)
          else if char = CHR 0x22 then Inr (push_token tokens token, (INSTANCE, []), backspace)
          else if char = CHR 0x5C then Inr (tokens, token, True)
          else Inr (tokens, (fst token, snd token @ [char]), backspace)
      | ARROW \<Rightarrow>
          if isWhitespace char then Inr (push_token tokens token, (INSTANCE, []), backspace)
          else if is_digit char then scan tokens (INSTANCE, snd token) backspace char
          else if \<not> is_glyph char then scan (push_token tokens token) (INSTANCE, []) backspace char
          else if \<not> may_be_arrow (snd token @ [char]) then scan tokens (INSTANCE, snd token) backspace char
          else Inr (tokens, (fst token, snd token @ [char]), backspace)
      | BRACKET \<Rightarrow> Inl (Panic ''Not implemented.''))"
  by pat_completeness auto

lemma glyph_may_be_arrow: "is_glyph c \<Longrightarrow> may_be_arrow [c]"
  by (auto simp: is_glyph_def may_be_arrow_def)

lemma digit_not_glyph: "is_digit c \<Longrightarrow> \<not> is_glyph c"
  by (auto simp: is_digit_def is_glyph_def)

termination scan
  by (relation "measure (\<lambda>(tokens, token, backspace, char).
        case fst token of
          INSTANCE \<Rightarrow> if is_glyph char then 1 else 0
        | ARROW \<Rightarrow> if is_glyph char then (if may_be_arrow (snd token @ [char]) then 0 else 2) else 1
        | _ \<Rightarrow> 0)")
     (auto simp: glyph_may_be_arrow digit_not_glyph)

text \<open>The loop over the characters, and \<open>tokenize\<close>.\<close>

fun scan_all :: "Token list \<Rightarrow> Token \<Rightarrow> bool \<Rightarrow> string \<Rightarrow> error + (Token list \<times> Token \<times> bool)" where
  "scan_all tokens token backspace [] = Inr (tokens, token, backspace)"
| "scan_all tokens token backspace (char # rest) =
     then_do (scan tokens token backspace char)
       (\<lambda>(tokens', token', backspace'). scan_all tokens' token' backspace' rest)"

definition tokenize :: "string \<Rightarrow> error + Token list" where
  "tokenize code =
     then_do (scan_all [] (INSTANCE, []) False code)
       (\<lambda>(tokens, token, backspace).
          if backspace \<or> fst token = STRING then panic ''Unterminated string''
          else Inr (push_token tokens token))"

section \<open>The parser\<close>

text \<open>
  The inner loop of \<open>parse\<close> that looks for the bracket closing a \<open>{\<close>: \<open>level\<close> goes up
  at \<open>{\<close> and down at any other bracket, and the scan stops where it reaches \<open>-1\<close>. The
  result is the slice of tokens before that bracket and the tokens after it; \<open>None\<close> when
  the tokens run out ("Unterminated block").
\<close>

fun find_close :: "int \<Rightarrow> Token list \<Rightarrow> (Token list \<times> Token list) option" where
  "find_close level [] = None"
| "find_close level (t # ts) =
     (if fst t \<noteq> BRACKET
      then (case find_close level ts of None \<Rightarrow> None
            | Some (slice, rest) \<Rightarrow> Some (t # slice, rest))
      else let level' = level + (if snd t = ''{'' then 1 else 0) * 2 - 1
           in if level' = - 1 then Some ([], ts)
              else (case find_close level' ts of None \<Rightarrow> None
                    | Some (slice, rest) \<Rightarrow> Some (t # slice, rest)))"

text \<open>
  The local function \<open>append(token)\<close> of \<open>parse\<close>: the new block's left border is the right
  border of the last block, or the group's inner arrow when it is the first.
\<close>

definition append_block :: "Arrow option \<Rightarrow> Block list \<Rightarrow> Block \<Rightarrow> Block list" where
  "append_block inn bs b =
     bs @ [set_left (if length bs \<ge> 1 then right (last bs) else inn) b]"

text \<open>\<open>arrow?.[0] || d\<close>: the default also replaces the type \<open>0\<close>, which is falsy.\<close>

definition type_or :: "Arrow option \<Rightarrow> nat \<Rightarrow> nat" where
  "type_or arrow d =
     (case arrow of None \<Rightarrow> d | Some a \<Rightarrow> if arrowType a = 0 then d else arrowType a)"

text \<open>The checks at the end of \<open>parse\<close>, and its result.\<close>

definition finish :: "Arrow option \<Rightarrow> Block list \<Rightarrow> error + Block" where
  "finish inn bs =
     (if length bs > 0 \<and>
         (real (type_or (left (hd bs)) 2) / 2 < 0.7 \<or> real (type_or (right (last bs)) 2) / 2 < 0.7)
      then panic ''Non-jump arrow at block border''
      else if length bs > 0 \<and> type_or (left (hd bs)) 0 mod 2 = 1
      then panic ''Right arrow at left block border''
      else if length bs > 0 \<and> type_or (right (last bs)) 1 mod 2 = 0
      then panic ''Left arrow at right block border''
      else Inr (BlockBranch None None bs inn))"

text \<open>
  The token loop of \<open>parse\<close>, on the group under construction (its inner arrow and its
  blocks so far). The source keeps a stack of open groups, but nothing is ever pushed on
  it, so it holds the one group throughout and a closing bracket met by the loop always
  panics; a \<open>{\<close> is parsed by the recursive call on the slice up to its closing bracket.
\<close>

function parse_loop :: "Arrow option \<Rightarrow> Block list \<Rightarrow> Token list \<Rightarrow> error + Block" where
  "parse_loop inn bs [] = finish inn bs"
| "parse_loop inn bs (token # ts) =
     (case fst token of
        BRACKET \<Rightarrow>
          if length bs > 0 \<and> right (last bs) = None then panic ''Token after block''
          else if snd token = ''{'' then
            (case find_close 0 ts of
               None \<Rightarrow> panic ''Unterminated block''
             | Some (slice, rest) \<Rightarrow>
                 if slice = [] then panic ''Empty block''
                 else (case parse_loop None [] slice of
                         Inl e \<Rightarrow> Inl e
                       | Inr sub \<Rightarrow> parse_loop inn (append_block inn bs sub) rest))
          else panic (''Top-level block cannot be closed with '' @ [CHR 0x27, CHR ''}'', CHR 0x27])
      | ARROW \<Rightarrow>
          if length bs = 0 then
            (if inn \<noteq> None then panic ''Arrow cannot go after another arrow''
             else parse_loop (Some (parseArrow token)) bs ts)
          else
            (if right (last bs) \<noteq> None then panic ''Arrow cannot go after another arrow''
             else parse_loop inn (butlast bs @ [set_right (Some (parseArrow token)) (last bs)]) ts)
      | _ \<Rightarrow>
          if length bs = 0 \<or> right (last bs) \<noteq> None then
            parse_loop inn
              (append_block inn bs
                 (if fst token = STRING then StringBlock None None (snd token)
                  else Call None None (snd token) [])) ts
          else
            (case last bs of
               StringBlock l r s \<Rightarrow>
                 parse_loop inn (butlast bs @ [StringBlock l r (s @ [CHR 0x0A] @ snd token)]) ts
             | Call l r n as \<Rightarrow>
                 parse_loop inn (butlast bs @ [Call l r n (as @ [snd token])]) ts
             | BlockBranch l r sub i \<Rightarrow> panic ''Token after block''))"
  by pat_completeness auto

lemma find_close_length:
  "find_close level ts = Some (slice, rest) \<Longrightarrow> length slice + length rest < length ts"
  by (induction ts arbitrary: level slice rest)
     (auto split: if_splits option.splits simp: Let_def)

termination parse_loop
  by (relation "measure (\<lambda>(inn, bs, ts). length ts)")
     (auto dest: find_close_length)

definition parse :: "Token list \<Rightarrow> error + Block" where
  "parse tokens = parse_loop None [] tokens"

text \<open>
  The start of \<open>sendhelp\<close>, after the tokenizer: parse, then the check of the top-level
  group (\<open>file.left || file.right || file.inner || ...\<close>).
\<close>

definition check_file :: "Block \<Rightarrow> error + Block" where
  "check_file file =
     (if left file \<noteq> None \<or> right file \<noteq> None \<or> inner file \<noteq> None
         \<or> (length (blocks file) > 0 \<and> right (last (blocks file)) \<noteq> None)
      then panic ''Arrows are not allowed at top-level block''
      else Inr file)"

definition parse_file :: "Token list \<Rightarrow> error + Block" where
  "parse_file tokens = (case parse tokens of Inl e \<Rightarrow> Inl e | Inr file \<Rightarrow> check_file file)"

section \<open>The host\<close>

text \<open>
  What the interpreter takes from the JavaScript host and from the user. Numbers are the
  host's: \<open>Number(s)\<close>, \<open>String(n)\<close>, the number \<open>0\<close> and the operators \<open>+\<close>, \<open>/\<close> and \<open>%\<close>
  are parameters, on a number type \<open>'n\<close> that the model does not look into. \<open>input n text\<close>
  is the line the user enters at the \<open>n\<close>-th request, made with the prompt \<open>text\<close>.
  \<open>shuffle\<close> is \<open>sort(() => (Math.random() - 0.5) * ...)\<close>, on the list of the indices of
  the begin blocks.
\<close>

record 'n host =
  Number :: "string \<Rightarrow> 'n"
  String :: "'n \<Rightarrow> string"
  num_zero :: 'n
  num_add :: "'n \<Rightarrow> 'n \<Rightarrow> 'n"
  num_div :: "'n \<Rightarrow> 'n \<Rightarrow> 'n"
  num_mod :: "'n \<Rightarrow> 'n \<Rightarrow> 'n"
  input :: "nat \<Rightarrow> string \<Rightarrow> string"
  shuffle :: "nat list \<Rightarrow> nat list"

text \<open>\<open>String(b)\<close> of a boolean.\<close>

definition String_bool :: "bool \<Rightarrow> string" where
  "String_bool b = (if b then ''true'' else ''false'')"

text \<open>\<open>xs.join(sep)\<close> and \<open>s.split(sep)\<close> with a separator of one character.\<close>

fun js_join :: "char \<Rightarrow> string list \<Rightarrow> string" where
  "js_join sep [] = []"
| "js_join sep [x] = x"
| "js_join sep (x # y # ys) = x @ sep # js_join sep (y # ys)"

fun js_split :: "char \<Rightarrow> string \<Rightarrow> string list" where
  "js_split sep [] = [[]]"
| "js_split sep (c # cs) =
     (if c = sep then [] # js_split sep cs
      else (case js_split sep cs of [] \<Rightarrow> [[c]] | x # xs \<Rightarrow> (c # x) # xs))"

definition newline :: char where
  "newline = CHR 0x0A"

section \<open>Extensions\<close>

text \<open>
  \<open>interface Command\<close>: \<open>execute(stream, args)\<close> resolves with a text (\<open>Inr\<close>) or rejects
  (\<open>Inl\<close>, holding \<open>String(err)\<close>). \<open>interface Extension\<close>: a name, a version and the
  commands by name.
\<close>

type_synonym Command = "string \<Rightarrow> string list \<Rightarrow> string + string"

record Extension =
  ext_name :: string
  version :: string
  commands :: "(string \<times> Command) list"

text \<open>\<open>const extensions : Extension[] = []\<close>, the registry that \<open>run\<close> reads.\<close>

definition extensions :: "Extension list" where
  "extensions = []"

section \<open>The state of a task and the built-in commands\<close>

text \<open>
  A group is named by its address. \<open>Map<BlockBranch, string>\<close> is a list of entries in
  the order of insertion: \<open>get\<close>, \<open>set\<close> (in place for a key that is there, at the end for
  a new one), and the merge that the engine writes as
  \<open>b.forEach((v, k) => a.set(k, (a.get(k) || '') + v))\<close>.
\<close>

type_synonym addr = "nat list"

type_synonym group_map = "(addr \<times> string) list"

definition map_get :: "group_map \<Rightarrow> addr \<Rightarrow> string" where
  "map_get m k = (case map_of m k of None \<Rightarrow> [] | Some v \<Rightarrow> v)"

fun map_set :: "group_map \<Rightarrow> addr \<Rightarrow> string \<Rightarrow> group_map" where
  "map_set [] k v = [(k, v)]"
| "map_set (p # ps) k v = (if fst p = k then (k, v) # ps else p # map_set ps k v)"

definition merge_into :: "group_map \<Rightarrow> group_map \<Rightarrow> group_map" where
  "merge_into a b = foldl (\<lambda>a (k, v). map_set a k (map_get a k @ v)) a b"

text \<open>
  What one step of a task reads and writes: its own \<open>stream\<close> and \<open>map\<close>, and what all
  tasks share: \<open>FakeProcess.storage\<close>, the variable \<open>output\<close> of batch mode, the texts shown by
  \<open>console.log\<close> or \<open>alert\<close> in live mode, and the number of input requests made.
\<close>

record state =
  stream :: string
  map_out :: group_map
  storage :: string
  output_text :: string
  shown :: "string list"
  asked :: nat

text \<open>
  The \<open>default\<close> case of the command switch: the first extension that has a command of
  this name runs it, and its text is appended to the stream; its failure is a panic.
\<close>

fun run_extension :: "Extension list \<Rightarrow> string \<Rightarrow> string list \<Rightarrow> string \<Rightarrow> error + string" where
  "run_extension [] nm args s = Inr s"
| "run_extension (extension # rest) nm args s =
     (case map_of (commands extension) nm of
        None \<Rightarrow> run_extension rest nm args s
      | Some execute \<Rightarrow>
          (case execute s args of Inl err \<Rightarrow> panic err | Inr text \<Rightarrow> Inr (s @ text)))"

text \<open>
  The command switch of \<open>run\<close>, for the call at address \<open>a\<close> with the name \<open>nm\<close> and the
  arguments \<open>args\<close>. A call has a grandparent (\<open>this.block.parent?.parent\<close>) when its address
  has more than one index; the group it prints to is then its parent, \<open>tl a\<close>. The \<open>catch\<close>
  branches of \<open>div\<close> and \<open>mod\<close> have nothing to catch here, the host's functions being
  total. The awaits of \<open>input\<close> and of an extension are not suspension points of the model:
  the rest of the step reads and writes nothing that the tasks share.
\<close>

definition run_call ::
  "'n host \<Rightarrow> bool \<Rightarrow> Extension list \<Rightarrow> addr \<Rightarrow> string \<Rightarrow> string list \<Rightarrow>
   'a state_scheme \<Rightarrow> error + 'a state_scheme"
where
  "run_call h live exts a nm args st =
     (if nm = ''nothing'' then Inr (st\<lparr>stream := []\<rparr>)
      else if nm = ''input'' then
        Inr (st\<lparr>stream := input h (asked st) (stream st @ js_join newline args),
                 asked := asked st + 1\<rparr>)
      else if nm = ''equals'' then
        Inr (st\<lparr>stream := String_bool (stream st = js_join newline args)\<rparr>)
      else if nm = ''sum'' then
        Inr (st\<lparr>stream :=
               String h (foldl (num_add h) (num_zero h)
                           (Number h (stream st) # map (Number h) args))\<rparr>)
      else if nm = ''div'' then
        Inr (st\<lparr>stream :=
               String h (num_div h (Number h (stream st))
                           (case args of [] \<Rightarrow> num_zero h
                            | x # xs \<Rightarrow> if x = [] then num_zero h else Number h x))\<rparr>)
      else if nm = ''mod'' then
        Inr (st\<lparr>stream :=
               String h (num_mod h (Number h (stream st))
                           (case args of [] \<Rightarrow> num_zero h
                            | x # xs \<Rightarrow> if x = [] then num_zero h else Number h x))\<rparr>)
      else if nm = ''loop'' then
        Inr (st\<lparr>storage := storage st @ [newline] @ js_join newline (stream st # args)\<rparr>)
      else if nm = ''pop'' then
        Inr (st\<lparr>stream := (let items = js_split newline (storage st)
                            in if items = [] then [] else last items),
                 storage := js_join newline (butlast (js_split newline (storage st)))\<rparr>)
      else if nm = ''done'' then
        Inr (st\<lparr>stream := String_bool (length (storage st) = 0)\<rparr>)
      else if nm = ''print'' then
        (if length a > 1
         then Inr (st\<lparr>map_out :=
                map_set (map_out st) (tl a)
                  (map_get (map_out st) (tl a) @ js_join newline args @ stream st)\<rparr>)
         else if live then Inr (st\<lparr>shown := shown st @ [js_join newline args @ stream st]\<rparr>)
         else Inr (st\<lparr>output_text := output_text st @ js_join newline args @ stream st\<rparr>))
      else then_do (run_extension exts nm args (stream st)) (\<lambda>s. Inr (st\<lparr>stream := s\<rparr>)))"

definition builtin_names :: "string list" where
  "builtin_names =
     [''nothing'', ''input'', ''equals'', ''sum'', ''div'', ''mod'', ''loop'', ''pop'',
      ''done'', ''print'']"

section \<open>Moving through the tree\<close>

text \<open>
  The block at an address, from the top-level group \<open>file\<close>; and the blocks of the group
  at an address (\<open>current.parent.blocks\<close>, for the address of the parent).
\<close>

fun block_from :: "Block \<Rightarrow> nat list \<Rightarrow> Block option" where
  "block_from b [] = Some b"
| "block_from (BlockBranch l r bs inn) (i # rest) =
     (if i < length bs then block_from (bs ! i) rest else None)"
| "block_from b (i # rest) = None"

definition block_at :: "Block \<Rightarrow> addr \<Rightarrow> Block option" where
  "block_at file a = block_from file (rev a)"

definition blocks_at :: "Block \<Rightarrow> addr \<Rightarrow> Block list" where
  "blocks_at file a =
     (case block_at file a of Some (BlockBranch l r bs inn) \<Rightarrow> bs | _ \<Rightarrow> [])"

text \<open>
  \<open>getBlockOf(target, shift)\<close>, in the three loops of the source. \<open>climb\<close> is the
  \<open>while\<close> that leaves every group of which \<open>current\<close> is the last block (the first, for
  a shift to the left): \<open>None\<close> is its \<open>return null\<close>. \<open>sink\<close> is the \<open>while\<close> that enters
  groups by their first (last) block; a group without blocks gives \<open>undefined\<close> there,
  which is \<open>None\<close>. \<open>hops\<close> is the \<open>for\<close> loop, \<open>n\<close> iterations from its end: reading
  \<open>current.parent\<close> of \<open>undefined\<close> at the start of an iteration is a \<open>TypeError\<close>.
\<close>

fun climb :: "Block \<Rightarrow> bool \<Rightarrow> addr \<Rightarrow> addr option" where
  "climb file forward [] = None"
| "climb file forward (me # parent) =
     (if (if forward then me + 1 = length (blocks_at file parent) else me = 0)
      then climb file forward parent
      else Some (me # parent))"

function sink_in :: "bool \<Rightarrow> Block \<Rightarrow> addr \<Rightarrow> addr option" where
  "sink_in forward (BlockBranch l r bs inn) a =
     (if bs = [] then None
      else sink_in forward (bs ! (if forward then 0 else length bs - 1))
             ((if forward then 0 else length bs - 1) # a))"
| "sink_in forward (Call l r n as) a = Some a"
| "sink_in forward (StringBlock l r s) a = Some a"
  by pat_completeness auto

lemma size_member_block: "b \<in> set bs \<Longrightarrow> size b < Suc (size_list size bs)"
  by (induction bs) auto

lemma size_nth_block: "k < length bs \<Longrightarrow> size (bs ! k) < Suc (size_list size bs)"
  by (simp add: size_member_block)

termination sink_in
  by (relation "measure (\<lambda>(forward, b, a). size b)")
     (auto simp: size_nth_block less_SucI)

definition sink :: "Block \<Rightarrow> bool \<Rightarrow> addr \<Rightarrow> addr option" where
  "sink file forward a =
     (case block_at file a of None \<Rightarrow> None | Some b \<Rightarrow> sink_in forward b a)"

fun hops :: "Block \<Rightarrow> int \<Rightarrow> nat \<Rightarrow> addr \<Rightarrow> error + addr option" where
  "hops file shift 0 current = Inr (Some current)"
| "hops file shift (Suc n) current =
     (case climb file (shift > 0) current of
        None \<Rightarrow> Inr None
      | Some [] \<Rightarrow> Inr None
      | Some (me # parent) \<Rightarrow>
          if \<bar>shift\<bar> = 1 then Inr (Some ((if shift > 0 then me + 1 else me - 1) # parent))
          else (case sink file (shift > 0) ((if shift > 0 then me + 1 else me - 1) # parent) of
                  None \<Rightarrow> if n = 0 then Inr None else Inl TypeError
                | Some leaf \<Rightarrow> hops file shift n leaf))"

definition getBlockOf :: "Block \<Rightarrow> addr \<Rightarrow> int \<Rightarrow> error + addr option" where
  "getBlockOf file target shift =
     (if target = [] then Inr None else hops file shift (nat \<bar>shift\<bar>) target)"

section \<open>The next move\<close>

text \<open>
  \<open>arrow && arrow[0] % 2 == 0\<close> on a left border and \<open>arrow && arrow[0] % 2 == 1\<close> on a
  right border: the arrow points out of the block.
\<close>

definition out_left :: "Block \<Rightarrow> bool" where
  "out_left b = (case left b of None \<Rightarrow> False | Some a \<Rightarrow> arrowType a mod 2 = 0)"

definition out_right :: "Block \<Rightarrow> bool" where
  "out_right b = (case right b of None \<Rightarrow> False | Some a \<Rightarrow> arrowType a mod 2 = 1)"

text \<open>
  The inner \<open>while\<close> of the block labelled \<open>check\<close>: the task goes up while the parent is
  not its ending block, and stops at the first ancestor with an arrow pointing out;
  \<open>None\<close> when it runs out of ancestors (\<open>return map\<close>).
\<close>

fun walk_up :: "Block \<Rightarrow> addr option \<Rightarrow> addr \<Rightarrow> addr option" where
  "walk_up file ending [] = None"
| "walk_up file ending (me # parent) =
     (if ending = Some parent then None
      else (case block_at file parent of
              None \<Rightarrow> None
            | Some b \<Rightarrow> if out_left b \<or> out_right b then Some parent
                        else walk_up file ending parent))"

text \<open>
  \<open>points\<close>: for each border with an arrow pointing out, the pair of the signed amount
  of heads (\<open>a[1] * (i * 2 - 1)\<close>) and the amount of dashes (\<open>a[2]\<close>).
\<close>

definition points :: "Block \<Rightarrow> (int \<times> nat) list" where
  "points b =
     (case left b of None \<Rightarrow> []
      | Some a \<Rightarrow> if arrowType a mod 2 = 0 then [(int (heads a) * (0 * 2 - 1), dashes a)] else [])
     @ (case right b of None \<Rightarrow> []
        | Some a \<Rightarrow> if arrowType a mod 2 = 1 then [(int (heads a) * (1 * 2 - 1), dashes a)] else [])"

text \<open>
  How an iteration of \<open>run\<close> ends: the task goes on at another block after
  \<open>await setTimeout()\<close>, or returns its map, or returns the merged maps of the two tasks
  started by \<open>FakeProcess.of(this.block, shift)\<close>. With it, the stream as the iteration
  leaves it and the call \<open>FakeProcess.desyncOf(target, shift, stream)\<close> it has made, if any.
\<close>

datatype outcome = Continue addr | Return | Fork int int

record navigation =
  new_stream :: string
  outcome :: outcome
  desync :: "(addr \<times> int \<times> string) option"

definition go_to :: "Block \<Rightarrow> addr \<Rightarrow> int \<Rightarrow> string \<Rightarrow> (addr \<times> int \<times> string) option
    \<Rightarrow> error + navigation" where
  "go_to file from shift s d =
     then_do (getBlockOf file from shift)
       (\<lambda>found. Inr \<lparr>new_stream = s,
                      outcome = (case found of None \<Rightarrow> Return | Some b \<Rightarrow> Continue b),
                      desync = d\<rparr>)"

text \<open>The \<open>switch (points.length)\<close>, at the ancestor \<open>g\<close> that the task has gone up to.\<close>

definition leave_group :: "Block \<Rightarrow> addr \<Rightarrow> Block \<Rightarrow> string \<Rightarrow> group_map \<Rightarrow> error + navigation" where
  "leave_group file g b s mp =
     (case points b of
        [] \<Rightarrow> Inr \<lparr>new_stream = s, outcome = Return, desync = None\<rparr>
      | [p] \<Rightarrow> go_to file g (int (snd p)) (s @ map_get mp g) None
      | p0 # p1 # ps \<Rightarrow>
          if snd p0 \<noteq> snd p1 then
            go_to file g
              (if (if snd p0 > snd p1 then - 1 else 1)
                    * (if s @ map_get mp g = ''true'' then 1 else - 1) > (0 :: int)
               then fst p1 else fst p0)
              (s @ map_get mp g) None
          else
            go_to file g (int (snd p0)) (s @ map_get mp g)
              (Some (g, int (snd p0), s @ map_get mp g)))"

text \<open>
  The three branches that end an iteration of \<open>run\<close> at the block \<open>b\<close> with the address
  \<open>cur\<close>: no arrow pointing out, an arrow pointing out on both borders, and the rest.
\<close>

definition navigate :: "Block \<Rightarrow> addr option \<Rightarrow> addr \<Rightarrow> string \<Rightarrow> group_map \<Rightarrow> error + navigation" where
  "navigate file ending cur s mp =
     (case block_at file cur of
        None \<Rightarrow> Inl TypeError
      | Some b \<Rightarrow>
          if \<not> out_left b \<and> \<not> out_right b then
            (case walk_up file ending cur of
               None \<Rightarrow> Inr \<lparr>new_stream = s, outcome = Return, desync = None\<rparr>
             | Some g \<Rightarrow>
                 (case block_at file g of
                    None \<Rightarrow> Inl TypeError
                  | Some gb \<Rightarrow> leave_group file g gb s mp))
          else if out_left b \<and> out_right b then
            (case (left b, right b) of
               (Some l, Some r) \<Rightarrow>
                 if dashes l = dashes r
                 then Inr \<lparr>new_stream = s,
                          outcome = Fork (1 * int (dashes l)) (- 1 * int (dashes r)),
                          desync = None\<rparr>
                 else (let m = (if dashes l > dashes r then - 1 else 1)
                                 * (if s = ''true'' then 1 else - 1)
                       in go_to file cur (m * int (heads (if m = - 1 then l else r))) s None)
             | _ \<Rightarrow> Inl TypeError)
          else
            (let m = (if out_left b then - 1 else 1)
             in case (if m = - 1 then left b else right b) of
                  None \<Rightarrow> Inl TypeError
                | Some a \<Rightarrow> go_to file cur (m * int (heads a)) s None))"

section \<open>Tasks\<close>

text \<open>
  \<open>class FakeProcess\<close>. A task is a coroutine: \<open>run\<close> goes on until it awaits, and between
  two awaits nothing else runs. The model keeps, for every task, the block it is at, its
  ending block, and the local variables \<open>stream\<close> and \<open>map\<close> as it last left them; and what
  it is waiting for: its next iteration after \<open>await setTimeout()\<close> (\<open>Ready\<close>; a new task
  is ready for its first), the tasks it has started at a group's begin blocks
  (\<open>WaitGroup\<close>), or the two calls of \<open>FakeProcess.of\<close> of a fork, each of which has
  started a task or none (\<open>WaitFork\<close>). In the source a new task runs up to its first
  await at once; the model leaves the moment to the schedule, which covers that order.
  The identifiers of the tasks and the debug output are left out.
\<close>

datatype status = Ready | WaitGroup "nat list" | WaitFork "nat option" "nat option" | Finished

record task =
  block :: addr
  endingBlock :: "addr option"
  saved_stream :: string
  saved_map :: group_map
  status :: status

text \<open>
  The state of the whole run: the shared part, the counter \<open>FakeProcess.running\<close>, and
  the tasks ever started, numbered from 0. While a task runs, \<open>stream\<close> and \<open>map_out\<close>
  hold its local variables.
\<close>

record world = state +
  running :: nat
  tasks :: "task list"

text \<open>\<open>new FakeProcess(block)\<close>: the ending block is the parent of the block.\<close>

definition FakeProcess :: "addr \<Rightarrow> task" where
  "FakeProcess b =
     \<lparr>block = b, endingBlock = (case b of [] \<Rightarrow> None | me # parent \<Rightarrow> Some parent),
      saved_stream = [], saved_map = [], status = Ready\<rparr>"

text \<open>The start of \<open>run()\<close>: \<open>FakeProcess.running++\<close>, and the task is there.\<close>

definition start :: "task \<Rightarrow> world \<Rightarrow> world" where
  "start t w = w\<lparr>running := running w + 1, tasks := tasks w @ [t]\<rparr>"

text \<open>
  \<open>FakeProcess.of(target, shift)\<close>: the number of the task started at the block found, or
  \<open>None\<close> where no block is found and the result is \<open>new Map()\<close>.
\<close>

definition process_of :: "Block \<Rightarrow> addr \<Rightarrow> int \<Rightarrow> world \<Rightarrow> error + (nat option \<times> world)" where
  "process_of file target shift w =
     then_do (getBlockOf file target shift)
       (\<lambda>found. case found of
                   None \<Rightarrow> Inr (None, w)
                 | Some b \<Rightarrow> Inr (Some (length (tasks w)), start (FakeProcess b) w))"

text \<open>
  \<open>FakeProcess.desyncOf(target, shift, stream)\<close>, which nobody awaits: an error in it is
  lost with its promise.
\<close>

definition desyncOf :: "Block \<Rightarrow> addr \<Rightarrow> int \<Rightarrow> string \<Rightarrow> world \<Rightarrow> world" where
  "desyncOf file target shift s w =
     (case getBlockOf file target shift of
        Inr (Some b) \<Rightarrow> start ((FakeProcess b)\<lparr>saved_stream := s, endingBlock := None\<rparr>) w
      | _ \<Rightarrow> w)"

definition is_finished :: "world \<Rightarrow> nat \<Rightarrow> bool" where
  "is_finished w k = (k < length (tasks w) \<and> status (tasks w ! k) = Finished)"

definition result_of :: "world \<Rightarrow> nat option \<Rightarrow> group_map" where
  "result_of w kid = (case kid of None \<Rightarrow> [] | Some k \<Rightarrow> saved_map (tasks w ! k))"

text \<open>
  The end of an iteration of task \<open>i\<close>, whose local variables are in \<open>stream\<close> and
  \<open>map_out\<close>: the next move, and what becomes of the task.
\<close>

definition go_on :: "Block \<Rightarrow> nat \<Rightarrow> world \<Rightarrow> error + world" where
  "go_on file i w =
     then_do (navigate file (endingBlock (tasks w ! i)) (block (tasks w ! i)) (stream w) (map_out w))
       (\<lambda>nav.
          let t = (tasks w ! i)\<lparr>saved_stream := new_stream nav, saved_map := map_out w\<rparr>;
              w1 = (case desync nav of
                      None \<Rightarrow> w
                    | Some (target, shift, s) \<Rightarrow> desyncOf file target shift s w)
          in case outcome nav of
               Continue b \<Rightarrow>
                 Inr (w1\<lparr>tasks := (tasks w1)[i := t\<lparr>block := b, status := Ready\<rparr>]\<rparr>)
             | Return \<Rightarrow>
                 Inr (w1\<lparr>running := running w1 - 1,
                         tasks := (tasks w1)[i := t\<lparr>status := Finished\<rparr>]\<rparr>)
             | Fork shift1 shift2 \<Rightarrow>
                 then_do (process_of file (block t) shift1 w1)
                   (\<lambda>(kid1, w2).
                      then_do (process_of file (block t) shift2 w2)
                        (\<lambda>(kid2, w3).
                           Inr (w3\<lparr>tasks := (tasks w3)[i := t\<lparr>status := WaitFork kid1 kid2\<rparr>]\<rparr>))))"

text \<open>
  One turn of task \<open>i\<close>, from where it waits to its next await or to its return. A ready
  task runs its block: a group starts a task at each of its begin blocks, a call runs
  its command, a string is appended to the stream. A task that has waited for the tasks
  of a group appends what their merged maps hold for the group. A task that has waited
  for a fork returns its map merged with theirs.
\<close>

definition step :: "'n host \<Rightarrow> bool \<Rightarrow> Block \<Rightarrow> nat \<Rightarrow> world \<Rightarrow> error + world" where
  "step h live file i w =
     (let t = tasks w ! i;
          w' = w\<lparr>stream := saved_stream t, map_out := saved_map t\<rparr>
      in case status t of
           Ready \<Rightarrow>
             (case block_at file (block t) of
                None \<Rightarrow> Inl TypeError
              | Some (BlockBranch l r bs inn) \<Rightarrow>
                  Inr (w\<lparr>running := running w + length (beginBlockIndex bs),
                          tasks := (tasks w)
                            [i := t\<lparr>status := WaitGroup
                                      [length (tasks w) ..<
                                         length (tasks w) + length (beginBlockIndex bs)]\<rparr>]
                            @ map (\<lambda>k. FakeProcess (k # block t)) (beginBlockIndex bs)\<rparr>)
              | Some (Call l r nm args) \<Rightarrow>
                  then_do (run_call h live extensions (block t) nm args w') (go_on file i)
              | Some (StringBlock l r s) \<Rightarrow>
                  go_on file i (w'\<lparr>stream := stream w' @ s\<rparr>))
         | WaitGroup kids \<Rightarrow>
             go_on file i
               (w'\<lparr>stream := stream w' @
                   map_get (foldl merge_into [] (map (\<lambda>k. saved_map (tasks w ! k)) kids))
                     (block t)\<rparr>)
         | WaitFork kid1 kid2 \<Rightarrow>
             Inr (w\<lparr>running := running w - 1,
                     tasks := (tasks w)
                       [i := t\<lparr>saved_map :=
                                  merge_into (saved_map t)
                                    (merge_into (result_of w kid1) (result_of w kid2)),
                                status := Finished\<rparr>]\<rparr>)
         | Finished \<Rightarrow> Inr w)"

text \<open>
  The tasks that can take a turn: the ready ones, and the waiting ones whose tasks have
  all returned.
\<close>

definition can_run :: "world \<Rightarrow> nat \<Rightarrow> bool" where
  "can_run w i =
     (case status (tasks w ! i) of
        Ready \<Rightarrow> True
      | WaitGroup kids \<Rightarrow> list_all (is_finished w) kids
      | WaitFork kid1 kid2 \<Rightarrow>
          list_all (\<lambda>kid. case kid of None \<Rightarrow> True | Some k \<Rightarrow> is_finished w k) [kid1, kid2]
      | Finished \<Rightarrow> False)"

text \<open>
  The event loop. Which of the tasks that can run takes the next turn is the host's
  choice: a schedule is the list of these choices, the number \<open>n\<close> choosing among \<open>k\<close>
  tasks the one at position \<open>n mod k\<close>. When no task can run, nothing happens.
\<close>

definition turn :: "'n host \<Rightarrow> bool \<Rightarrow> Block \<Rightarrow> nat \<Rightarrow> world \<Rightarrow> error + world" where
  "turn h live file n w =
     (case filter (can_run w) [0..<length (tasks w)] of
        [] \<Rightarrow> Inr w
      | i # rest \<Rightarrow> step h live file ((i # rest) ! (n mod length (i # rest))) w)"

fun run_tasks :: "'n host \<Rightarrow> bool \<Rightarrow> Block \<Rightarrow> nat list \<Rightarrow> world \<Rightarrow> error + world" where
  "run_tasks h live file [] w = Inr w"
| "run_tasks h live file (n # schedule) w =
     then_do (turn h live file n w) (run_tasks h live file schedule)"

text \<open>
  The body of \<open>sendhelp\<close> after the parser, for the top-level group \<open>file\<close>: a task is
  started at each begin block of the group, in the order that the random sort leaves
  them in, and the promise resolves once \<open>FakeProcess.running\<close> is \<open>0\<close>, with the output in
  batch mode and with nothing in live mode. The result is \<open>Inr None\<close> when the tasks have
  not all returned by the end of the schedule. An error in a task ends the run of the
  model with that error: in the source the promise of the task rejects,
  \<open>FakeProcess.running\<close> never returns to \<open>0\<close> and \<open>sendhelp\<close> does not resolve.
\<close>

definition run_file ::
  "'n host \<Rightarrow> nat list \<Rightarrow> Block \<Rightarrow> bool \<Rightarrow> error + string option option" where
  "run_file h schedule file live =
     then_do
       (run_tasks h live file schedule
          \<lparr>stream = [], map_out = [], storage = [], output_text = [], shown = [],
           asked = 0, running = length (shuffle h (beginBlockIndex (blocks file))),
           tasks = map (\<lambda>k. FakeProcess [k]) (shuffle h (beginBlockIndex (blocks file)))\<rparr>)
       (\<lambda>w. Inr (if running w = 0
                  then Some (if live then None else Some (output_text w))
                  else None))"

text \<open>The body of \<open>sendhelp\<close> after the tokenizer: the program is parsed and checked, and run.\<close>

definition run_program ::
  "'n host \<Rightarrow> nat list \<Rightarrow> Token list \<Rightarrow> bool \<Rightarrow> error + string option option" where
  "run_program h schedule tokens live =
     then_do (parse_file tokens) (\<lambda>file. run_file h schedule file live)"

text \<open>\<open>sendhelp(code, live)\<close>, from the text of the program.\<close>

definition sendhelp ::
  "'n host \<Rightarrow> nat list \<Rightarrow> string \<Rightarrow> bool \<Rightarrow> error + string option option" where
  "sendhelp h schedule code live =
     then_do (tokenize code) (\<lambda>tokens. run_program h schedule tokens live)"

text \<open>
  A host with no numbers in it, for the runs below in which no numeric command and no
  input takes part.
\<close>

definition no_numbers :: "unit host" where
  "no_numbers =
     \<lparr>Number = (\<lambda>s. ()), String = (\<lambda>n. []), num_zero = (),
      num_add = (\<lambda>a b. ()), num_div = (\<lambda>a b. ()), num_mod = (\<lambda>a b. ()),
      input = (\<lambda>n text. []), shuffle = (\<lambda>order. order)\<rparr>"

section \<open>Two readings of a group without arrows\<close>






section \<open>Example programs\<close>

text \<open>
  \<open>x <<- a <<-- b ->> c ->> d\<close>: the block \<open>b\<close> has an arrow pointing out on both borders,
  with the same amount of heads and different amounts of dashes.
\<close>

definition weights_source :: string where
  "weights_source = ''x <<- a <<-- b ->> c ->> d''"

definition weights_tokens :: "Token list" where
  "weights_tokens =
     [(INSTANCE, ''x''), (ARROW, ''<<-''), (INSTANCE, ''a''), (ARROW, ''<<--''),
      (INSTANCE, ''b''), (ARROW, ''->>''), (INSTANCE, ''c''), (ARROW, ''->>''),
      (INSTANCE, ''d'')]"

definition weights_file :: Block where
  "weights_file =
     BlockBranch None None
       [Call None (Some (Arrow 2 2 1)) ''x'' [],
        Call (Some (Arrow 2 2 1)) (Some (Arrow 2 2 2)) ''a'' [],
        Call (Some (Arrow 2 2 2)) (Some (Arrow 3 2 1)) ''b'' [],
        Call (Some (Arrow 3 2 1)) (Some (Arrow 3 2 1)) ''c'' [],
        Call (Some (Arrow 3 2 1)) None ''d'' []]
       None"

text \<open>
  \<open>p ->> q <<-- { b } ->> c -> d\<close>: the same two arrows on the borders of a group. The
  jump from \<open>p\<close> lands on \<open>b\<close>, inside the group.
\<close>

definition group_source :: string where
  "group_source = ''p ->> q <<-- { b } ->> c -> d''"

definition group_tokens :: "Token list" where
  "group_tokens =
     [(INSTANCE, ''p''), (ARROW, ''->>''), (INSTANCE, ''q''), (ARROW, ''<<--''),
      (BRACKET, ''{''), (INSTANCE, ''b''), (BRACKET, ''}''), (ARROW, ''->>''),
      (INSTANCE, ''c''), (ARROW, ''->''), (INSTANCE, ''d'')]"

definition group_file :: Block where
  "group_file =
     BlockBranch None None
       [Call None (Some (Arrow 3 2 1)) ''p'' [],
        Call (Some (Arrow 3 2 1)) (Some (Arrow 2 2 2)) ''q'' [],
        BlockBranch (Some (Arrow 2 2 2)) (Some (Arrow 3 2 1)) [Call None None ''b'' []] None,
        Call (Some (Arrow 3 2 1)) (Some (Arrow 1 1 1)) ''c'' [],
        Call (Some (Arrow 1 1 1)) None ''d'' []]
       None"

text \<open>
  \<open>print A <-- b --> print C\<close>: the block \<open>b\<close> has an arrow pointing out on both borders,
  with one head and two dashes each.
\<close>

definition fork_source :: string where
  "fork_source = ''print A <-- b --> print C''"

definition fork_tokens :: "Token list" where
  "fork_tokens =
     [(INSTANCE, ''print''), (INSTANCE, ''A''), (ARROW, ''<--''), (INSTANCE, ''b''),
      (ARROW, ''-->''), (INSTANCE, ''print''), (INSTANCE, ''C'')]"

definition fork_file :: Block where
  "fork_file =
     BlockBranch None None
       [Call None (Some (Arrow 0 1 2)) ''print'' [''A''],
        Call (Some (Arrow 0 1 2)) (Some (Arrow 1 1 2)) ''b'' [],
        Call (Some (Arrow 1 1 2)) None ''print'' [''C'']]
       None"

text \<open>
  \<open>"a" "b" -> loop -> pop -> print\<close>: the two strings are one literal of two lines, which
  is pushed and popped.
\<close>

definition lines_source :: string where
  "lines_source =
     [CHR 0x22] @ ''a'' @ [CHR 0x22] @ '' '' @ [CHR 0x22] @ ''b'' @ [CHR 0x22]
       @ '' -> loop -> pop -> print''"





section \<open>The registration of extensions\<close>

text \<open>
  \<open>export function extend() {}\<close>, the last declaration of the module: as a change of the
  registry it is the identity.
\<close>

definition extend :: "Extension list \<Rightarrow> Extension list" where
  "extend registry = registry"

section \<open>Properties of the arrow decoder\<close>

text \<open>
  C6. Decoding a glyph run never fails; the magnitude is the number of glyphs other than
  the dash, the weight is the number of dashes, the direction is to the left exactly when
  the run contains \<open><\<close>, and the mode is send exactly when the magnitude is 1.
\<close>

theorem parseArrow_decodes:
  "heads (parseArrow (ARROW, glyphs)) = length (filter (\<lambda>c. c \<noteq> CHR ''-'') glyphs)
   \<and> dashes (parseArrow (ARROW, glyphs)) = length (filter (\<lambda>c. c = CHR ''-'') glyphs)
   \<and> arrowType (parseArrow (ARROW, glyphs)) =
       (if CHR ''<'' \<in> set glyphs
        then (if heads (parseArrow (ARROW, glyphs)) = 1 then LEFT_SEND else LEFT_JUMP)
        else (if heads (parseArrow (ARROW, glyphs)) = 1 then RIGHT_SEND else RIGHT_JUMP))"
  by (simp add: parseArrow_def LEFT_SEND_def RIGHT_SEND_def LEFT_JUMP_def RIGHT_JUMP_def)

section \<open>Properties of the parser\<close>

text \<open>
  What the token loop keeps true of the group under construction: the left border of its
  first block is the group's inner arrow. The result of \<open>parse\<close> is a group with no left
  and no right border of its own.
\<close>

lemma left_set_right [simp]: "left (set_right a b) = left b"
  by (cases b) auto

lemma right_set_left [simp]: "right (set_left a b) = right b"
  by (cases b) auto

lemma left_set_left [simp]: "left (set_left a b) = a"
  by (cases b) auto

lemma right_set_right [simp]: "right (set_right a b) = a"
  by (cases b) auto

lemma hd_butlast_snoc: "bs \<noteq> [] \<Longrightarrow> left x = left (last bs) \<Longrightarrow> left (hd (butlast bs @ [x])) = left (hd bs)"
  by (cases bs rule: rev_cases) (auto simp: hd_append)

lemma finish_shape:
  "finish inn bs = Inr file \<Longrightarrow> file = BlockBranch None None bs inn"
  by (auto simp: finish_def split: if_splits)

lemma inv_append:
  "(bs \<noteq> [] \<longrightarrow> left (hd bs) = inn) \<Longrightarrow> left (hd (append_block inn bs b)) = inn"
  by (cases bs) (simp_all add: append_block_def)

lemma inv_replace_last:
  "bs \<noteq> [] \<Longrightarrow> left (hd bs) = inn \<Longrightarrow> left x = left (last bs) \<Longrightarrow>
   left (hd (butlast bs @ [x])) = inn"
  by (simp add: hd_butlast_snoc)

lemma parse_loop_step:
  assumes run: "parse_loop inn bs (token # ts) = Inr f"
    and inv: "bs \<noteq> [] \<longrightarrow> left (hd bs) = inn"
  shows "\<exists>inn' bs' rest. parse_loop inn' bs' rest = Inr f \<and> length rest \<le> length ts
           \<and> (bs' \<noteq> [] \<longrightarrow> left (hd bs') = inn')"
proof (cases "fst token")
  case BRACKET
  from run BRACKET obtain slice rest sub where
    ok: "find_close 0 ts = Some (slice, rest)"
      "parse_loop inn (append_block inn bs sub) rest = Inr f"
    by (simp split: if_splits option.splits sum.splits prod.splits)
  have "length rest \<le> length ts"
    using find_close_length [OF ok(1)] by simp
  with ok(2) inv_append [OF inv] show ?thesis by blast
next
  case ARROW
  show ?thesis
  proof (cases "length bs = 0")
    case True
    with run ARROW have "parse_loop (Some (parseArrow token)) bs ts = Inr f"
      by (simp_all split: if_splits)
    with True show ?thesis by auto
  next
    case False
    with run ARROW have r:
      "parse_loop inn (butlast bs @ [set_right (Some (parseArrow token)) (last bs)]) ts = Inr f"
      by (simp_all split: if_splits)
    from False inv have "left (hd (butlast bs @ [set_right (Some (parseArrow token)) (last bs)])) = inn"
      by (simp add: inv_replace_last)
    with r show ?thesis by blast
  qed
next
  case INSTANCE
  show ?thesis
  proof (cases "length bs = 0 \<or> right (last bs) \<noteq> None")
    case True
    with run INSTANCE
    have "parse_loop inn (append_block inn bs (Call None None (snd token) [])) ts = Inr f"
      by simp
    with inv_append [OF inv] show ?thesis by blast
  next
    case False
    with run INSTANCE obtain x where
      "parse_loop inn (butlast bs @ [x]) ts = Inr f" "left x = left (last bs)"
      by (auto split: Block.splits)
    with False inv inv_replace_last [of bs inn x] show ?thesis by auto
  qed
next
  case STRING
  show ?thesis
  proof (cases "length bs = 0 \<or> right (last bs) \<noteq> None")
    case True
    with run STRING
    have "parse_loop inn (append_block inn bs (StringBlock None None (snd token))) ts = Inr f"
      by simp
    with inv_append [OF inv] show ?thesis by blast
  next
    case False
    with run STRING obtain x where
      "parse_loop inn (butlast bs @ [x]) ts = Inr f" "left x = left (last bs)"
      by (auto split: Block.splits)
    with False inv inv_replace_last [of bs inn x] show ?thesis by auto
  qed
qed

lemma parse_loop_shape:
  "parse_loop inn bs ts = Inr f \<Longrightarrow> (bs \<noteq> [] \<longrightarrow> left (hd bs) = inn) \<Longrightarrow>
   left f = None \<and> right f = None \<and> is_BlockBranch f \<and>
   (blocks f \<noteq> [] \<longrightarrow> left (hd (blocks f)) = inner f)"
proof (induction "length ts" arbitrary: inn bs ts f rule: less_induct)
  case less
  show ?case
  proof (cases ts)
    case Nil
    with less.prems show ?thesis by (auto dest!: finish_shape)
  next
    case (Cons token ts')
    from parse_loop_step [OF less.prems(1) [unfolded Cons] less.prems(2)]
    obtain inn' bs' rest where
      st: "parse_loop inn' bs' rest = Inr f" "length rest \<le> length ts'"
      "bs' \<noteq> [] \<longrightarrow> left (hd bs') = inn'"
      by blast
    from st(2) have "length rest < length ts" unfolding Cons by simp
    with st show ?thesis using less.hyps by blast
  qed
qed

text \<open>
  C4, as amended. A program that \<open>sendhelp\<close> accepts has a top-level group with no inner
  arrow, no left and no right arrow of its own, and no arrow on the outer borders of its
  sequence (the left border of the first member, the right border of the last); and a
  parsed program whose top-level group has an inner arrow or an arrow on one of these
  outer borders is rejected with the message "Arrows are not allowed at top-level block".
  Arrows between two top-level members are not covered: they are allowed.
\<close>

theorem top_level_arrows:
  "(parse_file tokens = Inr file \<longrightarrow>
      left file = None \<and> right file = None \<and> inner file = None \<and>
      (blocks file \<noteq> [] \<longrightarrow>
         left (hd (blocks file)) = None \<and> right (last (blocks file)) = None))
   \<and> (parse tokens = Inr file \<and>
        (inner file \<noteq> None \<or>
         (blocks file \<noteq> [] \<and>
            (left (hd (blocks file)) \<noteq> None \<or> right (last (blocks file)) \<noteq> None))) \<longrightarrow>
      parse_file tokens = Inl (Panic ''Arrows are not allowed at top-level block''))"
proof -
  have shape: "left f = None \<and> right f = None \<and> (blocks f \<noteq> [] \<longrightarrow> left (hd (blocks f)) = inner f)"
    if "parse tokens = Inr f" for f
    using parse_loop_shape [of None "[]" tokens f] that by (simp add: parse_def)
  show ?thesis
    using shape [of "file"]
    by (auto simp: parse_file_def check_file_def split: sum.splits if_splits)
qed


theorem top_level_arrows_witness:
  "parse_file [(INSTANCE, ''a''), (ARROW, ''->''), (INSTANCE, ''b'')] =
     Inr (BlockBranch None None
            [Call None (Some (Arrow 1 1 1)) ''a'' [],
             Call (Some (Arrow 1 1 1)) None ''b'' []] None)
   \<and> parse [(ARROW, ''<<-''), (INSTANCE, ''a'')] =
     Inr (BlockBranch None None [Call (Some (Arrow 2 2 1)) None ''a'' []] (Some (Arrow 2 2 1)))
   \<and> parse_file [(ARROW, ''<<-''), (INSTANCE, ''a'')] =
     Inl (Panic ''Arrows are not allowed at top-level block'')"
  using
    top_level_arrows [of "[(INSTANCE, ''a''), (ARROW, ''->''), (INSTANCE, ''b'')]"
      "BlockBranch None None
         [Call None (Some (Arrow 1 1 1)) ''a'' [],
          Call (Some (Arrow 1 1 1)) None ''b'' []] None"]
    top_level_arrows [of "[(ARROW, ''<<-''), (INSTANCE, ''a'')]"
      "BlockBranch None None [Call (Some (Arrow 2 2 1)) None ''a'' []] (Some (Arrow 2 2 1))"]
  by (simp add: parse_file_def parse_def finish_def append_block_def parseArrow_def
        type_or_def check_file_def)

text \<open>
  C4 as the claim states it fails: the program \<open>a -> b\<close> is accepted and runs, and both
  of its top-level members carry an arrow on a border.
\<close>

theorem top_level_member_arrow_accepted:
  "tokenize ''a -> b'' = Inr [(INSTANCE, ''a''), (ARROW, ''->''), (INSTANCE, ''b'')]
   \<and> parse_file [(INSTANCE, ''a''), (ARROW, ''->''), (INSTANCE, ''b'')] =
     Inr (BlockBranch None None
            [Call None (Some (Arrow 1 1 1)) ''a'' [],
             Call (Some (Arrow 1 1 1)) None ''b'' []] None)
   \<and> right (Call None (Some (Arrow 1 1 1)) ''a'' []) \<noteq> None
   \<and> left (Call (Some (Arrow 1 1 1)) None ''b'' []) \<noteq> None
   \<and> sendhelp no_numbers [0, 0] ''a -> b'' False = Inr (Some (Some []))"
  by code_simp

text \<open>
  C5 at its failing inputs. In \<open>{ < a }\<close> the first member of the group has a send arrow
  on its left border, and in \<open>{ a < }\<close> the last member has a send arrow that points left
  on its right border: \<open>parse\<close> accepts both and the programs run to their end, because
  the type \<open>LEFT_SEND\<close> is \<open>0\<close> and \<open>arrow?.[0] || 2\<close> reads it as an absent arrow.
\<close>

theorem left_send_at_border_accepted:
  "tokenize ''{ < a }'' =
     Inr [(BRACKET, ''{''), (ARROW, ''<''), (INSTANCE, ''a''), (BRACKET, ''}'')]
   \<and> parse_file [(BRACKET, ''{''), (ARROW, ''<''), (INSTANCE, ''a''), (BRACKET, ''}'')] =
     Inr (BlockBranch None None
            [BlockBranch None None [Call (Some (Arrow LEFT_SEND 1 0)) None ''a'' []]
               (Some (Arrow LEFT_SEND 1 0))] None)
   \<and> sendhelp no_numbers [0, 0, 0] ''{ < a }'' False = Inr (Some (Some []))
   \<and> tokenize ''{ a < }'' =
     Inr [(BRACKET, ''{''), (INSTANCE, ''a''), (ARROW, ''<''), (BRACKET, ''}'')]
   \<and> parse_file [(BRACKET, ''{''), (INSTANCE, ''a''), (ARROW, ''<''), (BRACKET, ''}'')] =
     Inr (BlockBranch None None
            [BlockBranch None None [Call None (Some (Arrow LEFT_SEND 1 0)) ''a'' []] None] None)
   \<and> sendhelp no_numbers [0, 0, 0] ''{ a < }'' False = Inr (Some (Some []))"
  unfolding LEFT_SEND_def by code_simp

section \<open>Addresses\<close>

text \<open>
  The addresses stand for the references of the source, so the moves must stay inside
  the tree: from the address of a block, \<open>getBlockOf\<close> finds the address of a block.
\<close>

lemma block_from_snoc:
  "block_from b (path @ [k]) =
     (case block_from b path of
        Some (BlockBranch l r bs inn) \<Rightarrow> if k < length bs then Some (bs ! k) else None
      | _ \<Rightarrow> None)"
proof (induction b path rule: block_from.induct)
  case (1 b)
  then show ?case by (cases b) auto
qed auto

lemma block_at_Cons:
  "block_at file (k # a) =
     (case block_at file a of
        Some (BlockBranch l r bs inn) \<Rightarrow> if k < length bs then Some (bs ! k) else None
      | _ \<Rightarrow> None)"
  by (simp add: block_at_def block_from_snoc)

lemma block_at_member:
  assumes "block_at file (k # a) = Some b"
  shows "k < length (blocks_at file a) \<and> blocks_at file a ! k = b \<and> block_at file a \<noteq> None"
  using assms
  by (auto simp: block_at_Cons blocks_at_def split: option.splits Block.splits if_splits)

lemma block_at_sibling:
  assumes "block_at file (k # a) \<noteq> None" "j < length (blocks_at file a)"
  shows "block_at file (j # a) = Some (blocks_at file a ! j)"
  using assms
  by (auto simp: block_at_Cons blocks_at_def split: option.splits Block.splits if_splits)

lemma climb_valid:
  assumes "climb file forward a = Some c" "block_at file a \<noteq> None"
  shows "block_at file c \<noteq> None \<and>
         (\<exists>me parent. c = me # parent \<and>
            (if forward then me + 1 < length (blocks_at file parent) else 0 < me))"
  using assms
proof (induction a)
  case Nil
  then show ?case by simp
next
  case (Cons me parent)
  from Cons.prems(2) obtain b where b: "block_at file (me # parent) = Some b"
    by auto
  note m = block_at_member [OF b]
  show ?case
  proof (cases "if forward then me + 1 = length (blocks_at file parent) else me = 0")
    case True
    with Cons m show ?thesis by (simp split: if_splits)
  next
    case False
    with Cons.prems m show ?thesis by (auto split: if_splits)
  qed
qed

lemma sink_in_valid:
  "block_at file a = Some b \<Longrightarrow> sink_in forward b a = Some leaf \<Longrightarrow> block_at file leaf \<noteq> None"
proof (induction forward b a rule: sink_in.induct)
  case (1 forward l r bs inn a)
  let ?k = "if forward then 0 else length bs - 1"
  from "1.prems" have ne: "bs \<noteq> []" by (auto split: if_splits)
  then have k: "?k < length bs" by auto
  with "1.prems"(1) have "block_at file (?k # a) = Some (bs ! ?k)"
    by (simp add: block_at_Cons)
  with "1.IH" [OF ne] "1.prems"(2) ne show ?case by simp
qed auto

lemma sink_valid:
  "sink file forward a = Some leaf \<Longrightarrow> block_at file leaf \<noteq> None"
  by (auto simp: sink_def split: option.splits dest: sink_in_valid)

lemma hops_valid:
  "hops file shift n a = Inr (Some b) \<Longrightarrow> block_at file a \<noteq> None \<Longrightarrow> block_at file b \<noteq> None"
proof (induction n arbitrary: a)
  case 0
  then show ?case by simp
next
  case (Suc n)
  from Suc.prems(1) obtain c where c: "climb file (shift > 0) a = Some c"
    by (auto split: option.splits)
  from climb_valid [OF c Suc.prems(2)] obtain me parent where
    mp: "c = me # parent" "block_at file c \<noteq> None"
      "if shift > 0 then me + 1 < length (blocks_at file parent) else 0 < me"
    by auto
  let ?next = "(if shift > 0 then me + 1 else me - 1) # parent"
  from mp have "block_at file (me # parent) \<noteq> None" by simp
  then obtain y where y: "block_at file (me # parent) = Some y" by auto
  have "(if shift > 0 then me + 1 else me - 1) < length (blocks_at file parent)"
    using mp(3) block_at_member [OF y] by (auto split: if_splits)
  with block_at_sibling [of "file" me parent] mp
  have next_ok: "block_at file ?next \<noteq> None" by simp
  show ?case
  proof (cases "\<bar>shift\<bar> = 1")
    case True
    with Suc.prems(1) c mp(1) next_ok show ?thesis by (auto split: if_splits)
  next
    case False
    with Suc.prems(1) c mp(1) obtain leaf where
      "sink file (shift > 0) ?next = Some leaf" "hops file shift n leaf = Inr (Some b)"
      by (auto split: option.splits if_splits)
    with Suc.IH sink_valid show ?thesis by blast
  qed
qed

lemma getBlockOf_valid:
  "getBlockOf file target shift = Inr (Some b) \<Longrightarrow> block_at file target \<noteq> None \<Longrightarrow>
   block_at file b \<noteq> None"
  by (auto simp: getBlockOf_def split: if_splits dest: hops_valid)

section \<open>Properties of the built-in commands\<close>

lemma js_split_not_Nil [simp]: "js_split sep s \<noteq> []"
  by (induction s) (auto split: list.splits)

lemma js_split_no_sep: "sep \<notin> set v \<Longrightarrow> js_split sep v = [v]"
  by (induction v) auto

lemma js_split_snoc:
  "sep \<notin> set v \<Longrightarrow> js_split sep (s @ sep # v) = js_split sep s @ [v]"
  by (induction s) (auto simp: js_split_no_sep split: list.splits)

lemma js_join_Cons:
  "xs \<noteq> [] \<Longrightarrow> js_join sep (x # xs) = x @ sep # js_join sep xs"
  by (cases xs) auto

lemma js_join_split: "js_join sep (js_split sep s) = s"
proof (induction s)
  case Nil
  show ?case by simp
next
  case (Cons c cs)
  show ?case
  proof (cases "js_split sep cs")
    case Nil
    then show ?thesis by simp
  next
    case (Cons x xs)
    with Cons.IH show ?thesis
      by (cases xs) auto
  qed
qed

lemma js_join_lines:
  "xs \<noteq> [] \<Longrightarrow> [sep] @ js_join sep xs = concat (map (\<lambda>x. sep # x) xs)"
  by (induction sep xs rule: js_join.induct) auto

lemma concat_lines_last:
  "xs \<noteq> [] \<Longrightarrow> concat (map (\<lambda>x. sep # x) xs)
     = concat (map (\<lambda>x. sep # x) (butlast xs)) @ sep # last xs"
  by (induction xs) auto

lemma pushed_items:
  "storage_text @ [sep] @ js_join sep (v # args)
     = (storage_text @ concat (map (\<lambda>x. sep # x) (butlast (v # args)))) @ sep # last (v # args)"
  using js_join_lines [of "v # args" sep] concat_lines_last [of "v # args" sep]
  by (simp del: butlast.simps last.simps)

text \<open>
  C8, as amended. \<open>loop\<close> pushes the stream \<open>v\<close> and then its arguments; the value pushed
  last is \<open>last (v # args)\<close>, which is \<open>v\<close> itself when \<open>loop\<close> has no arguments. When that
  value has no newline in it and \<open>pop\<close> runs next on the shared storage, whatever the
  stream of the popping task is by then, the new stream is exactly that value, and the
  storage is what it was before the push, followed by the other values pushed.
\<close>

theorem loop_pop_roundtrip:
  assumes "newline \<notin> set (last (v # args))"
  shows "then_do (run_call h live exts a ''loop'' args (st\<lparr>stream := v\<rparr>))
           (\<lambda>st1. run_call h live exts a' ''pop'' args' (st1\<lparr>stream := s\<rparr>))
         = Inr (st\<lparr>stream := last (v # args),
                  storage := storage st @ concat (map (\<lambda>x. newline # x) (butlast (v # args)))\<rparr>)"
proof -
  let ?kept = "storage st @ concat (map (\<lambda>x. newline # x) (butlast (v # args)))"
  let ?pushed = "?kept @ newline # last (v # args)"
  have push: "run_call h live exts a ''loop'' args (st\<lparr>stream := v\<rparr>)
      = Inr (st\<lparr>stream := v, storage := ?pushed\<rparr>)"
    unfolding run_call_def using pushed_items [of "storage st" newline v args]
    by (simp del: butlast.simps last.simps)
  have items: "js_split newline ?pushed = js_split newline ?kept @ [last (v # args)]"
    using assms by (rule js_split_snoc)
  have pop: "run_call h live exts a' ''pop'' args' ((st\<lparr>stream := v, storage := ?pushed\<rparr>)\<lparr>stream := s\<rparr>)
      = Inr (st\<lparr>stream := last (v # args), storage := ?kept\<rparr>)"
    unfolding run_call_def
    by (simp add: items js_join_split Let_def del: butlast.simps last.simps append_assoc)
  show ?thesis
    unfolding push then_do_def using pop by simp
qed

theorem loop_pop_roundtrip_witness:
  "then_do (run_call no_numbers False [] [0] ''loop'' []
              \<lparr>stream = ''abc'', map_out = [], storage = ''s'', output_text = [], shown = [],
               asked = 0\<rparr>)
           (\<lambda>st1. run_call no_numbers False [] [0] ''pop'' [] (st1\<lparr>stream := ''''\<rparr>))
     = Inr \<lparr>stream = ''abc'', map_out = [], storage = ''s'', output_text = [], shown = [],
            asked = 0\<rparr>
   \<and> then_do (run_call no_numbers False [] [0] ''loop'' [''x'', ''yz'']
              \<lparr>stream = ''abc'', map_out = [], storage = ''s'', output_text = [], shown = [],
               asked = 0\<rparr>)
           (\<lambda>st1. run_call no_numbers False [] [0] ''pop'' [] (st1\<lparr>stream := ''''\<rparr>))
     = Inr \<lparr>stream = ''yz'', map_out = [], storage = ''s'' @ [newline] @ ''abc'' @ [newline] @ ''x'',
            output_text = [], shown = [], asked = 0\<rparr>"
  using loop_pop_roundtrip [of "''abc''" "[]" no_numbers False "[]" "[0]"
      "\<lparr>stream = ''abc'', map_out = [], storage = ''s'', output_text = [], shown = [], asked = 0\<rparr>"
      "[0]" "[]" "''''"]
    loop_pop_roundtrip [of "''abc''" "[''x'', ''yz'']" no_numbers False "[]" "[0]"
      "\<lparr>stream = ''abc'', map_out = [], storage = ''s'', output_text = [], shown = [], asked = 0\<rparr>"
      "[0]" "[]" "''''"]
  by (simp add: newline_def)

text \<open>
  C8 as the claim states it fails for a text with a newline in it: the storage is one
  text whose items are separated by newlines, so pushing \<open>a\<newline>b\<close> pushes two items and \<open>pop\<close>
  yields \<open>b\<close>; the program \<open>"a" "b" -> loop -> pop -> print\<close> prints \<open>b\<close>.
\<close>

theorem loop_pop_newline:
  "then_do (run_call no_numbers False [] [0] ''loop'' []
              \<lparr>stream = ''a'' @ [newline] @ ''b'', map_out = [], storage = [],
               output_text = [], shown = [], asked = 0\<rparr>)
           (run_call no_numbers False [] [0] ''pop'' [])
     = Inr \<lparr>stream = ''b'', map_out = [], storage = [newline] @ ''a'',
            output_text = [], shown = [], asked = 0\<rparr>
   \<and> ''b'' \<noteq> ''a'' @ [newline] @ ''b''
   \<and> tokenize lines_source =
       Inr [(STRING, ''a''), (STRING, ''b''), (ARROW, ''->''), (INSTANCE, ''loop''),
            (ARROW, ''->''), (INSTANCE, ''pop''), (ARROW, ''->''), (INSTANCE, ''print'')]
   \<and> sendhelp no_numbers [0, 0, 0, 0] lines_source False = Inr (Some (Some ''b''))"
  by code_simp

lemma run_call_extensions_ok:
  "\<exists>st'. run_call h live [] a nm args st = Inr st'"
  by (simp add: run_call_def then_do_def)

text \<open>
  C10. The registry is empty and \<open>extend\<close>, called any number of times, leaves it empty;
  so a call whose name is not a built-in command leaves the state as it is (the stream
  and map of the task, the shared storage, the output), and no call ends in the panic of
  an extension.
\<close>

theorem unknown_call_noop:
  "extensions = [] \<and> (extend ^^ n) extensions = [] \<and>
   (nm \<notin> set builtin_names \<longrightarrow> run_call h live extensions a nm args st = Inr st) \<and>
   run_call h live extensions a nm args st \<noteq> Inl e"
proof -
  have "(extend ^^ n) r = r" for r
    by (induction n) (simp_all add: extend_def)
  moreover have "run_call h live [] a nm args st \<noteq> Inl e"
    using run_call_extensions_ok [of h live a nm args st] by auto
  ultimately show ?thesis
    by (simp add: extensions_def run_call_def then_do_def builtin_names_def)
qed

theorem unknown_call_noop_witness:
  "''frobnicate'' \<notin> set builtin_names \<and>
   run_call no_numbers False extensions [0] ''frobnicate'' [''x'']
     \<lparr>stream = ''s'', map_out = [], storage = ''t'', output_text = ''o'', shown = [], asked = 0\<rparr>
   = Inr \<lparr>stream = ''s'', map_out = [], storage = ''t'', output_text = ''o'', shown = [], asked = 0\<rparr>"
proof -
  have "''frobnicate'' \<notin> set builtin_names"
    by (simp add: builtin_names_def)
  with unknown_call_noop [of 0 "''frobnicate''" no_numbers False "[0]" "[''x'']"
    "\<lparr>stream = ''s'', map_out = [], storage = ''t'', output_text = ''o'', shown = [], asked = 0\<rparr>"
    TypeError]
  show ?thesis by blast
qed

section \<open>Properties of the next move\<close>

lemma points_both:
  "left b = Some l \<Longrightarrow> right b = Some r \<Longrightarrow> arrowType l mod 2 = 0 \<Longrightarrow> arrowType r mod 2 = 1 \<Longrightarrow>
   points b = [(- int (heads l), dashes l), (int (heads r), dashes r)]"
  by (simp add: points_def)

lemma navigate_direct_unequal:
  assumes "block_at file cur = Some b" "left b = Some l" "right b = Some r"
    "arrowType l mod 2 = 0" "arrowType r mod 2 = 1" "dashes l \<noteq> dashes r"
  shows "navigate file ending cur s mp =
           go_to file cur
             (if s = ''true''
              then (if dashes l > dashes r then - int (heads l) else int (heads r))
              else (if dashes l < dashes r then - int (heads l) else int (heads r)))
             s None"
  using assms by (auto simp: navigate_def out_left_def out_right_def Let_def)

lemma navigate_walked_unequal:
  assumes "block_at file cur = Some c" "\<not> out_left c" "\<not> out_right c"
    "walk_up file ending cur = Some g"
    "block_at file g = Some b" "left b = Some l" "right b = Some r"
    "arrowType l mod 2 = 0" "arrowType r mod 2 = 1" "dashes l \<noteq> dashes r"
  shows "navigate file ending cur s mp =
           go_to file g
             (if s @ map_get mp g = ''true''
              then (if dashes l > dashes r then - int (heads l) else int (heads r))
              else (if dashes l < dashes r then - int (heads l) else int (heads r)))
             (s @ map_get mp g) None"
  using assms by (auto simp: navigate_def leave_group_def points_both)

lemma navigate_direct_equal:
  assumes "block_at file cur = Some b" "left b = Some l" "right b = Some r"
    "arrowType l mod 2 = 0" "arrowType r mod 2 = 1" "dashes l = dashes r"
  shows "navigate file ending cur s mp =
           Inr \<lparr>new_stream = s, outcome = Fork (int (dashes l)) (- int (dashes r)), desync = None\<rparr>"
  using assms by (auto simp: navigate_def out_left_def out_right_def Let_def)

lemma weights_tokens_parses:
  "tokenize weights_source = Inr weights_tokens \<and> parse_file weights_tokens = Inr weights_file"
  by code_simp

lemma group_tokens_parses:
  "tokenize group_source = Inr group_tokens \<and> parse_file group_tokens = Inr group_file"
  by code_simp

text \<open>
  C1, as amended. At a block whose left and right borders both carry an arrow pointing
  out, with different amounts of dashes, the task follows the arrow with more dashes if
  and only if its stream is exactly \<open>true\<close>, and the arrow with fewer dashes otherwise; it
  moves by that arrow's amount of heads in that arrow's direction, and returns when there
  is no block there. This holds at the block the task is at, and at the group it has
  gone up to, where the stream is compared once the group's pending output is appended.
\<close>

theorem heavier_edge_when_true:
  "(block_at file cur = Some b \<and> left b = Some l \<and> right b = Some r \<and>
    arrowType l mod 2 = 0 \<and> arrowType r mod 2 = 1 \<and> dashes l \<noteq> dashes r \<longrightarrow>
    navigate file ending cur s mp =
      go_to file cur
        (if s = ''true''
         then (if dashes l > dashes r then - int (heads l) else int (heads r))
         else (if dashes l < dashes r then - int (heads l) else int (heads r)))
        s None)
   \<and> (block_at file cur = Some c \<and> \<not> out_left c \<and> \<not> out_right c \<and>
       walk_up file ending cur = Some g \<and>
       block_at file g = Some b \<and> left b = Some l \<and> right b = Some r \<and>
       arrowType l mod 2 = 0 \<and> arrowType r mod 2 = 1 \<and> dashes l \<noteq> dashes r \<longrightarrow>
       navigate file ending cur s mp =
         go_to file g
           (if s @ map_get mp g = ''true''
            then (if dashes l > dashes r then - int (heads l) else int (heads r))
            else (if dashes l < dashes r then - int (heads l) else int (heads r)))
           (s @ map_get mp g) None)"
proof (intro conjI impI)
  assume "block_at file cur = Some b \<and> left b = Some l \<and> right b = Some r \<and>
    arrowType l mod 2 = 0 \<and> arrowType r mod 2 = 1 \<and> dashes l \<noteq> dashes r"
  then show "navigate file ending cur s mp =
      go_to file cur
        (if s = ''true''
         then (if dashes l > dashes r then - int (heads l) else int (heads r))
         else (if dashes l < dashes r then - int (heads l) else int (heads r)))
        s None"
    by (elim conjE) (rule navigate_direct_unequal; assumption)
next
  assume "block_at file cur = Some c \<and> \<not> out_left c \<and> \<not> out_right c \<and>
       walk_up file ending cur = Some g \<and>
       block_at file g = Some b \<and> left b = Some l \<and> right b = Some r \<and>
       arrowType l mod 2 = 0 \<and> arrowType r mod 2 = 1 \<and> dashes l \<noteq> dashes r"
  then show "navigate file ending cur s mp =
         go_to file g
           (if s @ map_get mp g = ''true''
            then (if dashes l > dashes r then - int (heads l) else int (heads r))
            else (if dashes l < dashes r then - int (heads l) else int (heads r)))
           (s @ map_get mp g) None"
    by (elim conjE) (rule navigate_walked_unequal; assumption)
qed

theorem heavier_edge_when_true_witness:
  "block_at weights_file [2] =
     Some (Call (Some (Arrow 2 2 2)) (Some (Arrow 3 2 1)) ''b'' [])
   \<and> navigate weights_file (Some []) [2] ''true'' [] =
       Inr \<lparr>new_stream = ''true'', outcome = Continue [0], desync = None\<rparr>
   \<and> navigate weights_file (Some []) [2] ''yes'' [] =
       Inr \<lparr>new_stream = ''yes'', outcome = Continue [4], desync = None\<rparr>
   \<and> block_at group_file [0, 2] = Some (Call None None ''b'' [])
   \<and> walk_up group_file (Some []) [0, 2] = Some [2]
   \<and> block_at group_file [2] =
       Some (BlockBranch (Some (Arrow 2 2 2)) (Some (Arrow 3 2 1)) [Call None None ''b'' []] None)
   \<and> navigate group_file (Some []) [0, 2] ''tr'' [([2], ''ue'')] =
       Inr \<lparr>new_stream = ''true'', outcome = Continue [0], desync = None\<rparr>"
proof -
  have b: "block_at weights_file [2] =
      Some (Call (Some (Arrow 2 2 2)) (Some (Arrow 3 2 1)) ''b'' [])"
    by code_simp
  have c: "block_at group_file [0, 2] = Some (Call None None ''b'' [])"
    "walk_up group_file (Some []) [0, 2] = Some [2]"
    "block_at group_file [2] =
       Some (BlockBranch (Some (Arrow 2 2 2)) (Some (Arrow 3 2 1)) [Call None None ''b'' []] None)"
    by code_simp+
  have go: "go_to weights_file [2] (- 2) ''true'' None =
      Inr \<lparr>new_stream = ''true'', outcome = Continue [0], desync = None\<rparr>"
    "go_to weights_file [2] 2 ''yes'' None =
      Inr \<lparr>new_stream = ''yes'', outcome = Continue [4], desync = None\<rparr>"
    "go_to group_file [2] (- 2) ''true'' None =
      Inr \<lparr>new_stream = ''true'', outcome = Continue [0], desync = None\<rparr>"
    by code_simp+
  have 1: "navigate weights_file (Some []) [2] ''true'' [] = go_to weights_file [2] (- 2) ''true'' None"
    using heavier_edge_when_true [of weights_file "[2]"
        "Call (Some (Arrow 2 2 2)) (Some (Arrow 3 2 1)) ''b'' []" "Arrow 2 2 2" "Arrow 3 2 1"
        "Some []" "''true''" "[]"] b
    by simp
  have 2: "navigate weights_file (Some []) [2] ''yes'' [] = go_to weights_file [2] 2 ''yes'' None"
    using heavier_edge_when_true [of weights_file "[2]"
        "Call (Some (Arrow 2 2 2)) (Some (Arrow 3 2 1)) ''b'' []" "Arrow 2 2 2" "Arrow 3 2 1"
        "Some []" "''yes''" "[]"] b
    by simp
  have 3: "navigate group_file (Some []) [0, 2] ''tr'' [([2], ''ue'')] =
      go_to group_file [2] (- 2) ''true'' None"
    using heavier_edge_when_true [of group_file "[0, 2]"
        "BlockBranch (Some (Arrow 2 2 2)) (Some (Arrow 3 2 1)) [Call None None ''b'' []] None"
        "Arrow 2 2 2" "Arrow 3 2 1"
        "Some []" "''tr''" "[([2], ''ue'')]" "Call None None ''b'' []" "[2]"] c
    by (simp add: out_left_def out_right_def map_get_def)
  from b c go 1 2 3 show ?thesis by simp
qed

text \<open>
  C1 as the claim states it fails: at the block \<open>b\<close> of \<open>x <<- a <<-- b ->> c ->> d\<close> with
  the stream \<open>true\<close>, the task follows the left arrow, which has more dashes, to \<open>x\<close>; the
  arrow with fewer dashes leads to \<open>d\<close>.
\<close>

theorem lighter_edge_not_followed_when_true:
  "tokenize weights_source = Inr weights_tokens
   \<and> parse_file weights_tokens = Inr weights_file
   \<and> block_at weights_file [2] =
       Some (Call (Some (Arrow LEFT_JUMP 2 2)) (Some (Arrow RIGHT_JUMP 2 1)) ''b'' [])
   \<and> navigate weights_file (Some []) [2] ''true'' [] =
       Inr \<lparr>new_stream = ''true'', outcome = Continue [0], desync = None\<rparr>
   \<and> getBlockOf weights_file [2] (- 2) = Inr (Some [0])
   \<and> getBlockOf weights_file [2] 2 = Inr (Some [4])"
  unfolding LEFT_JUMP_def RIGHT_JUMP_def by code_simp

lemma go_on_go_to:
  assumes "navigate file (endingBlock (tasks w ! i)) (block (tasks w ! i)) (stream w) (map_out w)
             = go_to file from shift s None"
  shows "go_on file i w =
     then_do (getBlockOf file from shift)
       (\<lambda>found. case found of
          Some b' \<Rightarrow>
            Inr (w\<lparr>tasks := (tasks w)
                   [i := (tasks w ! i)\<lparr>saved_stream := s, saved_map := map_out w,
                                       block := b', status := Ready\<rparr>]\<rparr>)
        | None \<Rightarrow>
            Inr (w\<lparr>running := running w - 1,
                    tasks := (tasks w)
                      [i := (tasks w ! i)\<lparr>saved_stream := s, saved_map := map_out w,
                                          status := Finished\<rparr>]\<rparr>))"
  unfolding go_on_def assms
  by (simp add: go_to_def then_do_def Let_def split: sum.splits option.splits)

text \<open>
  C3, as amended. At a block (or at the group gone up to) with an arrow pointing out on
  both borders and different amounts of dashes, no task is started, whether the two
  amounts of heads are equal or not: the tasks of the run are the same after the move,
  and the current task alone continues along the arrow it follows, or returns.
\<close>

theorem unequal_weights_start_no_task:
  "(block_at file (block (tasks w ! i)) = Some b \<and> left b = Some l \<and> right b = Some r \<and>
    arrowType l mod 2 = 0 \<and> arrowType r mod 2 = 1 \<and> dashes l \<noteq> dashes r \<longrightarrow>
    go_on file i w =
      then_do
        (getBlockOf file (block (tasks w ! i))
           (if stream w = ''true''
            then (if dashes l > dashes r then - int (heads l) else int (heads r))
            else (if dashes l < dashes r then - int (heads l) else int (heads r))))
        (\<lambda>found. case found of
           Some b' \<Rightarrow>
             Inr (w\<lparr>tasks := (tasks w)
                    [i := (tasks w ! i)\<lparr>saved_stream := stream w, saved_map := map_out w,
                                        block := b', status := Ready\<rparr>]\<rparr>)
         | None \<Rightarrow>
             Inr (w\<lparr>running := running w - 1,
                     tasks := (tasks w)
                       [i := (tasks w ! i)\<lparr>saved_stream := stream w, saved_map := map_out w,
                                           status := Finished\<rparr>]\<rparr>)))
   \<and> (block_at file (block (tasks w ! i)) = Some c \<and> \<not> out_left c \<and> \<not> out_right c \<and>
       walk_up file (endingBlock (tasks w ! i)) (block (tasks w ! i)) = Some g \<and>
       block_at file g = Some b \<and> left b = Some l \<and> right b = Some r \<and>
       arrowType l mod 2 = 0 \<and> arrowType r mod 2 = 1 \<and> dashes l \<noteq> dashes r \<longrightarrow>
       go_on file i w =
         then_do
           (getBlockOf file g
              (if stream w @ map_get (map_out w) g = ''true''
               then (if dashes l > dashes r then - int (heads l) else int (heads r))
               else (if dashes l < dashes r then - int (heads l) else int (heads r))))
           (\<lambda>found. case found of
              Some b' \<Rightarrow>
                Inr (w\<lparr>tasks := (tasks w)
                       [i := (tasks w ! i)\<lparr>saved_stream := stream w @ map_get (map_out w) g,
                                           saved_map := map_out w,
                                           block := b', status := Ready\<rparr>]\<rparr>)
            | None \<Rightarrow>
                Inr (w\<lparr>running := running w - 1,
                        tasks := (tasks w)
                          [i := (tasks w ! i)\<lparr>saved_stream := stream w @ map_get (map_out w) g,
                                              saved_map := map_out w,
                                              status := Finished\<rparr>]\<rparr>)))"
proof (intro conjI impI)
  assume "block_at file (block (tasks w ! i)) = Some b \<and> left b = Some l \<and> right b = Some r \<and>
    arrowType l mod 2 = 0 \<and> arrowType r mod 2 = 1 \<and> dashes l \<noteq> dashes r"
  then have "navigate file (endingBlock (tasks w ! i)) (block (tasks w ! i)) (stream w) (map_out w) =
      go_to file (block (tasks w ! i))
        (if stream w = ''true''
         then (if dashes l > dashes r then - int (heads l) else int (heads r))
         else (if dashes l < dashes r then - int (heads l) else int (heads r)))
        (stream w) None"
    by (elim conjE) (rule navigate_direct_unequal; assumption)
  then show "go_on file i w =
      then_do
        (getBlockOf file (block (tasks w ! i))
           (if stream w = ''true''
            then (if dashes l > dashes r then - int (heads l) else int (heads r))
            else (if dashes l < dashes r then - int (heads l) else int (heads r))))
        (\<lambda>found. case found of
           Some b' \<Rightarrow>
             Inr (w\<lparr>tasks := (tasks w)
                    [i := (tasks w ! i)\<lparr>saved_stream := stream w, saved_map := map_out w,
                                        block := b', status := Ready\<rparr>]\<rparr>)
         | None \<Rightarrow>
             Inr (w\<lparr>running := running w - 1,
                     tasks := (tasks w)
                       [i := (tasks w ! i)\<lparr>saved_stream := stream w, saved_map := map_out w,
                                           status := Finished\<rparr>]\<rparr>))"
    by (rule go_on_go_to)
next
  assume "block_at file (block (tasks w ! i)) = Some c \<and> \<not> out_left c \<and> \<not> out_right c \<and>
       walk_up file (endingBlock (tasks w ! i)) (block (tasks w ! i)) = Some g \<and>
       block_at file g = Some b \<and> left b = Some l \<and> right b = Some r \<and>
       arrowType l mod 2 = 0 \<and> arrowType r mod 2 = 1 \<and> dashes l \<noteq> dashes r"
  then have "navigate file (endingBlock (tasks w ! i)) (block (tasks w ! i)) (stream w) (map_out w) =
      go_to file g
        (if stream w @ map_get (map_out w) g = ''true''
         then (if dashes l > dashes r then - int (heads l) else int (heads r))
         else (if dashes l < dashes r then - int (heads l) else int (heads r)))
        (stream w @ map_get (map_out w) g) None"
    by (elim conjE) (rule navigate_walked_unequal; assumption)
  then show "go_on file i w =
         then_do
           (getBlockOf file g
              (if stream w @ map_get (map_out w) g = ''true''
               then (if dashes l > dashes r then - int (heads l) else int (heads r))
               else (if dashes l < dashes r then - int (heads l) else int (heads r))))
           (\<lambda>found. case found of
              Some b' \<Rightarrow>
                Inr (w\<lparr>tasks := (tasks w)
                       [i := (tasks w ! i)\<lparr>saved_stream := stream w @ map_get (map_out w) g,
                                           saved_map := map_out w,
                                           block := b', status := Ready\<rparr>]\<rparr>)
            | None \<Rightarrow>
                Inr (w\<lparr>running := running w - 1,
                        tasks := (tasks w)
                          [i := (tasks w ! i)\<lparr>saved_stream := stream w @ map_get (map_out w) g,
                                              saved_map := map_out w,
                                              status := Finished\<rparr>]\<rparr>))"
    by (rule go_on_go_to)
qed

theorem unequal_weights_start_no_task_witness:
  "go_on weights_file 0
     \<lparr>stream = ''yes'', map_out = [], storage = [], output_text = [], shown = [], asked = 0,
      running = 1, tasks = [FakeProcess [2]]\<rparr>
   = Inr \<lparr>stream = ''yes'', map_out = [], storage = [], output_text = [], shown = [], asked = 0,
          running = 1,
          tasks = [\<lparr>block = [4], endingBlock = Some [], saved_stream = ''yes'', saved_map = [],
                    status = Ready\<rparr>]\<rparr>
   \<and> go_on group_file 0
       \<lparr>stream = ''tr'', map_out = [([2], ''ue'')], storage = [], output_text = [], shown = [],
        asked = 0, running = 1, tasks = [(FakeProcess [0, 2])\<lparr>endingBlock := None\<rparr>]\<rparr>
     = Inr \<lparr>stream = ''tr'', map_out = [([2], ''ue'')], storage = [], output_text = [],
            shown = [], asked = 0, running = 1,
            tasks = [\<lparr>block = [0], endingBlock = None, saved_stream = ''true'',
                      saved_map = [([2], ''ue'')], status = Ready\<rparr>]\<rparr>"
proof -
  let ?w = "\<lparr>stream = ''yes'', map_out = [], storage = [], output_text = [], shown = [], asked = 0,
      running = 1, tasks = [FakeProcess [2]]\<rparr>"
  let ?v = "\<lparr>stream = ''tr'', map_out = [([2], ''ue'')], storage = [], output_text = [], shown = [],
        asked = 0, running = 1, tasks = [(FakeProcess [0, 2])\<lparr>endingBlock := None\<rparr>]\<rparr>"
  have b: "block_at weights_file (block (tasks ?w ! 0)) =
      Some (Call (Some (Arrow 2 2 2)) (Some (Arrow 3 2 1)) ''b'' [])"
    by code_simp
  have c: "block_at group_file (block (tasks ?v ! 0)) = Some (Call None None ''b'' [])"
    "walk_up group_file (endingBlock (tasks ?v ! 0)) (block (tasks ?v ! 0)) = Some [2]"
    "block_at group_file [2] =
       Some (BlockBranch (Some (Arrow 2 2 2)) (Some (Arrow 3 2 1)) [Call None None ''b'' []] None)"
    by code_simp+
  have g: "getBlockOf weights_file [2] 2 = Inr (Some [4])"
    "getBlockOf group_file [2] (- 2) = Inr (Some [0])"
    by code_simp+
  have 1: "go_on weights_file 0 ?w =
      Inr \<lparr>stream = ''yes'', map_out = [], storage = [], output_text = [], shown = [], asked = 0,
          running = 1,
          tasks = [\<lparr>block = [4], endingBlock = Some [], saved_stream = ''yes'', saved_map = [],
                    status = Ready\<rparr>]\<rparr>"
    using unequal_weights_start_no_task [of weights_file ?w 0
        "Call (Some (Arrow 2 2 2)) (Some (Arrow 3 2 1)) ''b'' []" "Arrow 2 2 2" "Arrow 3 2 1"] b g
    by (simp add: then_do_def FakeProcess_def)
  have 2: "go_on group_file 0 ?v =
      Inr \<lparr>stream = ''tr'', map_out = [([2], ''ue'')], storage = [], output_text = [],
            shown = [], asked = 0, running = 1,
            tasks = [\<lparr>block = [0], endingBlock = None, saved_stream = ''true'',
                      saved_map = [([2], ''ue'')], status = Ready\<rparr>]\<rparr>"
    using unequal_weights_start_no_task [of group_file ?v 0
        "BlockBranch (Some (Arrow 2 2 2)) (Some (Arrow 3 2 1)) [Call None None ''b'' []] None"
        "Arrow 2 2 2" "Arrow 3 2 1" "Call None None ''b'' []" "[2]"] c g
    by (simp add: then_do_def FakeProcess_def out_left_def out_right_def map_get_def)
  from 1 2 show ?thesis by simp
qed

text \<open>
  C3 as the claim states it fails: the two arrows of \<open>b\<close> in \<open>x <<- a <<-- b ->> c ->> d\<close>
  have two heads each and different amounts of dashes, and the turn of a task at \<open>b\<close>
  leaves one task in the run, moved to \<open>d\<close>. The same holds where the task goes up to
  a group: in \<open>p ->> q <<-- { b } ->> c -> d\<close> the task started at \<open>p\<close> jumps to \<open>b\<close>, goes
  up to the group, whose two arrows are these again, and moves to \<open>d\<close>, alone.
\<close>

theorem same_magnitude_starts_no_task:
  "tokenize weights_source = Inr weights_tokens
   \<and> parse_file weights_tokens = Inr weights_file
   \<and> block_at weights_file [2] =
       Some (Call (Some (Arrow LEFT_JUMP 2 2)) (Some (Arrow RIGHT_JUMP 2 1)) ''b'' [])
   \<and> step no_numbers False weights_file 0
       \<lparr>stream = [], map_out = [], storage = [], output_text = [], shown = [], asked = 0,
        running = 1, tasks = [FakeProcess [2]]\<rparr>
     = Inr \<lparr>stream = [], map_out = [], storage = [], output_text = [], shown = [], asked = 0,
            running = 1,
            tasks = [\<lparr>block = [4], endingBlock = Some [], saved_stream = [], saved_map = [],
                      status = Ready\<rparr>]\<rparr>
   \<and> tokenize group_source = Inr group_tokens
   \<and> parse_file group_tokens = Inr group_file
   \<and> block_at group_file [2] =
       Some (BlockBranch (Some (Arrow LEFT_JUMP 2 2)) (Some (Arrow RIGHT_JUMP 2 1))
               [Call None None ''b'' []] None)
   \<and> step no_numbers False group_file 0
       \<lparr>stream = [], map_out = [], storage = [], output_text = [], shown = [], asked = 0,
        running = 1, tasks = [FakeProcess [0]]\<rparr>
     = Inr \<lparr>stream = [], map_out = [], storage = [], output_text = [], shown = [], asked = 0,
            running = 1,
            tasks = [\<lparr>block = [0, 2], endingBlock = Some [], saved_stream = [],
                      saved_map = [], status = Ready\<rparr>]\<rparr>
   \<and> step no_numbers False group_file 0
       \<lparr>stream = [], map_out = [], storage = [], output_text = [], shown = [], asked = 0,
        running = 1,
        tasks = [\<lparr>block = [0, 2], endingBlock = Some [], saved_stream = [],
                  saved_map = [], status = Ready\<rparr>]\<rparr>
     = Inr \<lparr>stream = [], map_out = [], storage = [], output_text = [], shown = [], asked = 0,
            running = 1,
            tasks = [\<lparr>block = [4], endingBlock = Some [], saved_stream = [], saved_map = [],
                      status = Ready\<rparr>]\<rparr>"
  unfolding LEFT_JUMP_def RIGHT_JUMP_def by code_simp

text \<open>
  C2 at its failing input, \<open>print A <-- b --> print C\<close>. The one begin block is \<open>b\<close>. Its
  two arrows have the same amount of dashes, so the task forks: with the shifts \<open>2\<close> and
  \<open>-2\<close>, the amounts of dashes, where the arrows have one head each. No block is two
  steps away from \<open>b\<close> on either side, so neither \<open>print\<close> runs and the output is empty;
  one step to the left and to the right are the two \<open>print\<close> calls.
\<close>

theorem fork_walks_by_weight:
  "tokenize fork_source = Inr fork_tokens
   \<and> parse_file fork_tokens = Inr fork_file
   \<and> beginBlockIndex (blocks fork_file) = [1]
   \<and> navigate fork_file (Some []) [1] [] [] =
       Inr \<lparr>new_stream = [], outcome = Fork 2 (- 2), desync = None\<rparr>
   \<and> getBlockOf fork_file [1] 2 = Inr None
   \<and> getBlockOf fork_file [1] (- 2) = Inr None
   \<and> getBlockOf fork_file [1] (- 1) = Inr (Some [0])
   \<and> getBlockOf fork_file [1] 1 = Inr (Some [2])
   \<and> sendhelp no_numbers [0, 0] fork_source False = Inr (Some (Some []))"
  by code_simp

section \<open>Programs without arrows\<close>


















end
